theory Spec2Isabelle
  imports Complex_Main
begin

section \<open>JavaScript values used by the transport\<close>

text \<open>
  The transport of \<^verbatim>\<open>src/extension.ts\<close> is written over JavaScript strings, numbers,
  objects returned by \<^verbatim>\<open>JSON.parse\<close> and \<^verbatim>\<open>Map\<close>s. Strings are lists of
  characters, one \<^typ>\<open>char\<close> per code unit, so \<^verbatim>\<open>.length\<close> is \<^const>\<open>length\<close>;
  the code units are those below 256. The decoder compares a character with
  \<^verbatim>\<open>'\n'\<close> and does nothing else with it.
  A value is \<^verbatim>\<open>undefined\<close>, \<^verbatim>\<open>null\<close>, a boolean, a number, a string, an array or an
  object given by its own properties in insertion order, each name once. Numbers
  inside payloads are taken to be integers, as the protocol declares its ids and error
  codes.
\<close>

datatype jsval =
    JUndefined
  | JNull
  | JBool bool
  | JNum int
  | JStr string
  | JArr "jsval list"
  | JObj "(string \<times> jsval) list"

datatype exception = TypeError | SyntaxError | Thrown jsval

text \<open>
  The value of \<^verbatim>\<open>awaitLength\<close> comes out of the unary \<^verbatim>\<open>+\<close> applied to a string, so
  it can be any JavaScript number, \<^verbatim>\<open>NaN\<close> included. A finite number is kept as the
  exact rational that its literal denotes; JavaScript rounds it to a double, which
  changes nothing for the integers below \<^verbatim>\<open>2^53\<close>, the lengths a frame can have.
\<close>

datatype number = Finite rat | PosInfinity | NegInfinity | NaN

definition LF :: char where
  "LF = CHR 0x0A"

definition CR :: char where
  "CR = CHR 0x0D"

subsection \<open>\<^verbatim>\<open>String.prototype.substring\<close>\<close>

text \<open>
  \<^verbatim>\<open>s.substring(a, b)\<close> clamps both indices to \<^verbatim>\<open>[0, s.length]\<close> and swaps them when
  the first is larger than the second.
\<close>

definition js_substring :: "string \<Rightarrow> int \<Rightarrow> int \<Rightarrow> string" where
  "js_substring s a b =
     (let len = int (length s);
          fs = min (max a 0) len;
          fe = min (max b 0) len;
          from = min fs fe;
          to = max fs fe
      in take (nat (to - from)) (drop (nat from) s))"

subsection \<open>Number to string and string to number\<close>

text \<open>
  \<^verbatim>\<open>"Content-Length: " + msgStr.length\<close> appends the decimal digits of a
  non-negative integer.
\<close>

definition digit_char :: "nat \<Rightarrow> char" where
  "digit_char d = char_of (48 + d)"

fun dec :: "nat \<Rightarrow> string" where
  "dec n = (if n < 10 then [digit_char n] else dec (n div 10) @ [digit_char (n mod 10)])"

declare dec.simps [simp del]

text \<open>
  The unary \<^verbatim>\<open>+\<close> on a string is \<^verbatim>\<open>StringToNumber\<close>: white space and line
  terminators are trimmed at both ends, the empty string is \<^verbatim>\<open>0\<close>, then the text must
  be a signed decimal literal (with optional fraction and exponent, or \<^verbatim>\<open>Infinity\<close>)
  or an unsigned hexadecimal, octal or binary integer literal; anything else is
  \<^verbatim>\<open>NaN\<close>.
\<close>

definition is_white :: "char \<Rightarrow> bool" where
  "is_white c = (of_char c \<in> {9, 10, 11, 12, 13, 32, 160 :: nat})"

definition trim :: "string \<Rightarrow> string" where
  "trim s = rev (dropWhile is_white (rev (dropWhile is_white s)))"

definition digit_value :: "char \<Rightarrow> nat option" where
  "digit_value c =
     (let k = (of_char c :: nat)
      in if 48 \<le> k \<and> k \<le> 57 then Some (k - 48)
         else if 97 \<le> k \<and> k \<le> 102 then Some (k - 87)
         else if 65 \<le> k \<and> k \<le> 70 then Some (k - 55)
         else None)"

definition is_digit_in :: "nat \<Rightarrow> char \<Rightarrow> bool" where
  "is_digit_in base c = (case digit_value c of None \<Rightarrow> False | Some d \<Rightarrow> d < base)"

definition digits_value :: "nat \<Rightarrow> string \<Rightarrow> nat" where
  "digits_value base ds = foldl (\<lambda>a c. a * base + (case digit_value c of None \<Rightarrow> 0 | Some d \<Rightarrow> d)) 0 ds"

definition scale10 :: "rat \<Rightarrow> int \<Rightarrow> rat" where
  "scale10 m e = (if 0 \<le> e then m * 10 ^ nat e else m / 10 ^ nat (- e))"

definition exponent_part :: "string \<Rightarrow> int option" where
  "exponent_part r =
     (case r of
        [] \<Rightarrow> Some 0
      | c # t \<Rightarrow>
          if c = CHR ''e'' \<or> c = CHR ''E'' then
            (let (sg, ds) = (case t of
                               [] \<Rightarrow> (1, t)
                             | d # u \<Rightarrow> if d = CHR ''+'' then (1, u)
                                        else if d = CHR ''-'' then (- 1, u)
                                        else (1, t))
             in if ds \<noteq> [] \<and> list_all (is_digit_in 10) ds
                then Some (sg * int (digits_value 10 ds)) else None)
          else None)"

definition str_unsigned_decimal :: "string \<Rightarrow> number" where
  "str_unsigned_decimal s =
     (if s = ''Infinity'' then PosInfinity
      else
        let ip = takeWhile (is_digit_in 10) s;
            r1 = dropWhile (is_digit_in 10) s;
            (fp, r2) = (case r1 of
                          [] \<Rightarrow> ([], r1)
                        | c # t \<Rightarrow> if c = CHR ''.''
                                   then (takeWhile (is_digit_in 10) t, dropWhile (is_digit_in 10) t)
                                   else ([], r1))
        in if ip = [] \<and> fp = [] then NaN
           else case exponent_part r2 of
                  None \<Rightarrow> NaN
                | Some e \<Rightarrow>
                    Finite (scale10 (of_nat (digits_value 10 (ip @ fp))) (e - int (length fp))))"

definition negate :: "number \<Rightarrow> number" where
  "negate x =
     (case x of
        Finite q \<Rightarrow> Finite (- q)
      | PosInfinity \<Rightarrow> NegInfinity
      | NegInfinity \<Rightarrow> PosInfinity
      | NaN \<Rightarrow> NaN)"

definition radix_prefix :: "string \<Rightarrow> (nat \<times> string) option" where
  "radix_prefix t =
     (case t of
        z # x # ds \<Rightarrow>
          if z \<noteq> CHR ''0'' then None
          else if x = CHR ''x'' \<or> x = CHR ''X'' then Some (16, ds)
          else if x = CHR ''o'' \<or> x = CHR ''O'' then Some (8, ds)
          else if x = CHR ''b'' \<or> x = CHR ''B'' then Some (2, ds)
          else None
      | _ \<Rightarrow> None)"

definition to_number :: "string \<Rightarrow> number" where
  "to_number s =
     (let t = trim s
      in if t = [] then Finite 0
         else case radix_prefix t of
                Some (base, ds) \<Rightarrow>
                  if ds \<noteq> [] \<and> list_all (is_digit_in base) ds
                  then Finite (of_nat (digits_value base ds)) else NaN
              | None \<Rightarrow>
                  (case t of
                     [] \<Rightarrow> Finite 0
                   | c # u \<Rightarrow> if c = CHR ''+'' then str_unsigned_decimal u
                              else if c = CHR ''-'' then negate (str_unsigned_decimal u)
                              else str_unsigned_decimal t))"


section \<open>Messages, listeners and the transport state\<close>

text \<open>
  \<^verbatim>\<open>lsp.RequestMessage\<close>: the object built by \<^verbatim>\<open>sendRequest\<close> and kept in
  \<^verbatim>\<open>pendingRequests\<close>. Its id is declared \<^verbatim>\<open>integer | string\<close>, which is also the
  key type of the \<^verbatim>\<open>Map\<close>. An omitted \<^verbatim>\<open>params\<close> is \<^const>\<open>JUndefined\<close>.
\<close>

datatype msgid = IdNum int | IdStr string

record request_message =
  msg_id :: msgid
  msg_jsonrpc :: string
  msg_method :: string
  msg_params :: jsval

text \<open>\<^verbatim>\<open>ClientResponse\<close>, what a request listener returns.\<close>

record client_response =
  result :: jsval
  error :: jsval

text \<open>
  What the transport does to the outside is kept as a trace: the frames written to
  \<^verbatim>\<open>fserver.stdin\<close>, the listeners called (with their arguments), the messages shown
  with \<^verbatim>\<open>vscode.window.showErrorMessage\<close>, the values logged with \<^verbatim>\<open>console.log\<close>,
  every payload handed to \<^verbatim>\<open>interpretMessage\<close>, and the rejection of the promise that
  the \<^verbatim>\<open>async\<close> function \<^verbatim>\<open>interpretMessage\<close> returns when an exception is raised in
  its body.
\<close>

datatype event =
    Write string
  | RequestListenerCalled string jsval
  | NotificationListenerCalled string jsval
  | ResponseListenerCalled string request_message jsval
  | ShowErrorMessage string
  | ConsoleLog jsval
  | Interpreted jsval
  | Rejected exception

text \<open>
  The three listener tables are \<^verbatim>\<open>Map\<close>s from method names to functions. A listener
  either returns or throws; the listeners registered in \<^verbatim>\<open>activate\<close> touch neither the
  decoder variables nor \<^verbatim>\<open>pendingRequests\<close>. \<^verbatim>\<open>JSON.stringify\<close>,
  \<^verbatim>\<open>JSON.parse\<close> and the text that the platform gives for a number
  (\<^verbatim>\<open>Number.prototype.toString\<close>) belong to the platform and are parameters;
  \<^verbatim>\<open>JSON.parse\<close> throws a \<^verbatim>\<open>SyntaxError\<close> on text that is not JSON.
\<close>

record env =
  notificationListeners :: "string \<rightharpoonup> (jsval \<Rightarrow> exception + unit)"
  requestListeners :: "string \<rightharpoonup> (jsval \<Rightarrow> exception + client_response)"
  responseListeners :: "string \<rightharpoonup> (request_message \<Rightarrow> jsval \<Rightarrow> exception + bool)"
  JSON_stringify :: "jsval \<Rightarrow> string"
  JSON_parse :: "string \<Rightarrow> exception + jsval"
  Number_toString :: "int \<Rightarrow> string"

text \<open>
  The module variables \<^verbatim>\<open>readLength\<close>, \<^verbatim>\<open>msgStage\<close>, \<^verbatim>\<open>received\<close>,
  \<^verbatim>\<open>awaitLength\<close> and \<^verbatim>\<open>pendingRequests\<close> (\<^verbatim>\<open>lastMsgId\<close> is never read or written).
\<close>

record transport =
  readLength :: nat
  msgStage :: nat
  received :: string
  awaitLength :: number
  pendingRequests :: "msgid \<rightharpoonup> request_message"

definition initial :: transport where
  "initial = \<lparr>readLength = 0, msgStage = 0, received = [], awaitLength = Finite 0,
              pendingRequests = Map.empty\<rparr>"

definition contentLength :: int where
  "contentLength = int (length ''Content-Length: '')"

subsection \<open>Property access on a parsed payload\<close>

text \<open>
  \<^verbatim>\<open>'k' in obj\<close> throws a \<^verbatim>\<open>TypeError\<close> when \<^verbatim>\<open>obj\<close> is not an object. It is used
  with the names \<^verbatim>\<open>method\<close> and \<^verbatim>\<open>id\<close> only, which no prototype defines, so an array
  has neither and an object has them exactly when they are among its own properties.
\<close>

fun js_in :: "string \<Rightarrow> jsval \<Rightarrow> exception + bool" where
  "js_in k (JObj kvs) = Inr (k \<in> set (map fst kvs))"
| "js_in k (JArr xs) = Inr False"
| "js_in k v = Inl TypeError"

text \<open>
  \<^verbatim>\<open>obj.k\<close> for the names \<^verbatim>\<open>method\<close>, \<^verbatim>\<open>id\<close> and \<^verbatim>\<open>params\<close>; it is read only
  after \<^verbatim>\<open>'method' in obj\<close> has succeeded, that is on objects and arrays.
\<close>

fun js_get :: "jsval \<Rightarrow> string \<Rightarrow> jsval" where
  "js_get (JObj kvs) k = (case map_of kvs k of None \<Rightarrow> JUndefined | Some v \<Rightarrow> v)"
| "js_get v k = JUndefined"

text \<open>
  \<^verbatim>\<open>Map.prototype.get\<close> and \<^verbatim>\<open>delete\<close> with an arbitrary value as key: a string or a
  number can be a key of \<^verbatim>\<open>pendingRequests\<close>, nothing else is ever equal to one.
\<close>

fun as_key :: "jsval \<Rightarrow> msgid option" where
  "as_key (JStr s) = Some (IdStr s)"
| "as_key (JNum n) = Some (IdNum n)"
| "as_key v = None"

definition map_get :: "(msgid \<rightharpoonup> 'v) \<Rightarrow> jsval \<Rightarrow> 'v option" where
  "map_get m v = (case as_key v of None \<Rightarrow> None | Some k \<Rightarrow> m k)"

definition map_delete :: "(msgid \<rightharpoonup> 'v) \<Rightarrow> jsval \<Rightarrow> (msgid \<rightharpoonup> 'v)" where
  "map_delete m v = (case as_key v of None \<Rightarrow> m | Some k \<Rightarrow> m(k := None))"

text \<open>
  The listener tables have string keys: a listener is found only for a value that is a
  string, under that string.
\<close>

definition listener_get :: "(string \<rightharpoonup> 'f) \<Rightarrow> jsval \<Rightarrow> (string \<times> 'f) option" where
  "listener_get m v =
     (case v of
        JStr k \<Rightarrow> (case m k of None \<Rightarrow> None | Some fn \<Rightarrow> Some (k, fn))
      | _ \<Rightarrow> None)"

text \<open>
  \<^verbatim>\<open>"Method " + v + " not found."\<close> converts \<^verbatim>\<open>v\<close> to a string. A string is itself
  and a number has the text the platform gives it. An object is first asked for its
  \<^verbatim>\<open>valueOf\<close> and \<^verbatim>\<open>toString\<close>: a parsed object has the prototype of all objects,
  whose \<^verbatim>\<open>valueOf\<close> returns the object and whose \<^verbatim>\<open>toString\<close> returns
  \<^verbatim>\<open>[object Object]\<close>; an own property \<^verbatim>\<open>toString\<close> hides the latter and, being a
  parsed value, cannot be called, so the conversion throws a \<^verbatim>\<open>TypeError\<close>. An array
  is its elements joined by commas, \<^verbatim>\<open>null\<close> and \<^verbatim>\<open>undefined\<close> elements being empty
  and the others converted in order, so that the first element that throws makes the
  whole conversion throw.
\<close>

definition dec_int :: "int \<Rightarrow> string" where
  "dec_int i = (if i < 0 then CHR ''-'' # dec (nat (- i)) else dec (nat i))"

fun join :: "string \<Rightarrow> string list \<Rightarrow> string" where
  "join sep [] = []"
| "join sep [x] = x"
| "join sep (x # y # ys) = x @ sep @ join sep (y # ys)"

fun collect :: "(exception + string) list \<Rightarrow> exception + string list" where
  "collect [] = Inr []"
| "collect (Inl e # rs) = Inl e"
| "collect (Inr x # rs) = (case collect rs of Inl e \<Rightarrow> Inl e | Inr xs \<Rightarrow> Inr (x # xs))"

fun js_to_string :: "(int \<Rightarrow> string) \<Rightarrow> jsval \<Rightarrow> exception + string" where
  "js_to_string num JUndefined = Inr ''undefined''"
| "js_to_string num JNull = Inr ''null''"
| "js_to_string num (JBool b) = Inr (if b then ''true'' else ''false'')"
| "js_to_string num (JNum n) = Inr (num n)"
| "js_to_string num (JStr s) = Inr s"
| "js_to_string num (JArr xs) =
     (case collect (map (\<lambda>x. if x = JNull \<or> x = JUndefined then Inr []
                               else js_to_string num x) xs) of
        Inl e \<Rightarrow> Inl e
      | Inr parts \<Rightarrow> Inr (join '','' parts))"
| "js_to_string num (JObj kvs) =
     (if ''toString'' \<in> set (map fst kvs) then Inl TypeError else Inr ''[object Object]'')"

section \<open>The encoder: \<^verbatim>\<open>sendRequest\<close>, \<^verbatim>\<open>sendNotification\<close>, \<^verbatim>\<open>sendResponse\<close>\<close>

text \<open>
  All three build the message object, serialize it and write
  \<^verbatim>\<open>"Content-Length: " + msgStr.length + "\r\n\r\n" + msgStr\<close> in one call of
  \<^verbatim>\<open>fserver.stdin.write\<close> (the child process is spawned with a piped \<^verbatim>\<open>stdin\<close>).
  They are \<^verbatim>\<open>async\<close> without any \<^verbatim>\<open>await\<close>, so each runs to its end inside the call.
\<close>

definition frame :: "string \<Rightarrow> string" where
  "frame msgStr = ''Content-Length: '' @ dec (length msgStr) @ [CR, LF, CR, LF] @ msgStr"

definition id_value :: "msgid \<Rightarrow> jsval" where
  "id_value k = (case k of IdNum n \<Rightarrow> JNum n | IdStr s \<Rightarrow> JStr s)"

definition request_object :: "request_message \<Rightarrow> jsval" where
  "request_object msg =
     JObj [(''id'', id_value (msg_id msg)), (''jsonrpc'', JStr (msg_jsonrpc msg)),
           (''method'', JStr (msg_method msg)), (''params'', msg_params msg)]"

text \<open>
  \<^verbatim>\<open>sendRequest\<close>; \<^verbatim>\<open>uuid\<close> is the string that \<^verbatim>\<open>randomUUID()\<close> returns in this call.
\<close>

definition sendRequest :: "env \<Rightarrow> string \<Rightarrow> string \<Rightarrow> jsval \<Rightarrow> transport \<Rightarrow> transport \<times> event list" where
  "sendRequest E uuid method params s =
     (let msg = \<lparr>msg_id = IdStr uuid, msg_jsonrpc = ''2.0'', msg_method = method,
                 msg_params = params\<rparr>;
          s' = s\<lparr>pendingRequests := (pendingRequests s)(msg_id msg \<mapsto> msg)\<rparr>;
          msgStr = JSON_stringify E (request_object msg)
      in (s', [Write (frame msgStr)]))"

definition notification_object :: "string \<Rightarrow> jsval \<Rightarrow> jsval" where
  "notification_object method params =
     JObj [(''jsonrpc'', JStr ''2.0''), (''method'', JStr method), (''params'', params)]"

definition sendNotification :: "env \<Rightarrow> string \<Rightarrow> jsval \<Rightarrow> event list" where
  "sendNotification E method params =
     (let msgStr = JSON_stringify E (notification_object method params)
      in [Write (frame msgStr)])"

definition response_object :: "jsval \<Rightarrow> jsval \<Rightarrow> jsval \<Rightarrow> jsval" where
  "response_object request res err =
     JObj [(''error'', err), (''id'', js_get request ''id''), (''jsonrpc'', JStr ''2.0''),
           (''result'', res)]"

definition sendResponse :: "env \<Rightarrow> jsval \<Rightarrow> jsval \<Rightarrow> jsval \<Rightarrow> event list" where
  "sendResponse E request res err =
     (let msgStr = JSON_stringify E (response_object request res err)
      in [Write (frame msgStr)])"

section \<open>Dispatch: \<^verbatim>\<open>interpretMessage\<close>\<close>

definition METHOD_NOT_FOUND :: int where
  "METHOD_NOT_FOUND = - 32601"

text \<open>
  \<^verbatim>\<open>interpretMessage\<close> is \<^verbatim>\<open>async\<close> and contains no \<^verbatim>\<open>await\<close>: its body runs to the
  end inside the call, and an exception raised in it (by the \<^verbatim>\<open>in\<close> operator, by a
  listener, or by the conversion of the method to a string, which is evaluated before
  \<^verbatim>\<open>sendResponse\<close> is called) ends the body there and rejects the returned promise, which no one
  observes. There is no \<^verbatim>\<open>try\<close> in the file.
\<close>

definition interpretMessage :: "env \<Rightarrow> transport \<Rightarrow> jsval \<Rightarrow> transport \<times> event list" where
  "interpretMessage E s obj =
     (case js_in ''method'' obj of
        Inl e \<Rightarrow> (s, [Rejected e])
      | Inr True \<Rightarrow>
          (case js_in ''id'' obj of
             Inl e \<Rightarrow> (s, [Rejected e])
           | Inr True \<Rightarrow>
               (case listener_get (requestListeners E) (js_get obj ''method'') of
                  Some (k, fn) \<Rightarrow>
                    (case fn (js_get obj ''params'') of
                       Inl e \<Rightarrow>
                         (s, [RequestListenerCalled k (js_get obj ''params''), Rejected e])
                     | Inr r \<Rightarrow>
                         (s, RequestListenerCalled k (js_get obj ''params'')
                             # sendResponse E obj (result r) (error r)))
                | None \<Rightarrow>
                    (case js_to_string (Number_toString E) (js_get obj ''method'') of
                       Inl e \<Rightarrow> (s, [Rejected e])
                     | Inr name \<Rightarrow>
                         (s, sendResponse E obj JUndefined
                               (JObj [(''code'', JNum METHOD_NOT_FOUND),
                                      (''message'', JStr (''Method '' @ name @ '' not found.''))]))))
           | Inr False \<Rightarrow>
               (case listener_get (notificationListeners E) (js_get obj ''method'') of
                  Some (k, fn) \<Rightarrow>
                    (case fn (js_get obj ''params'') of
                       Inl e \<Rightarrow>
                         (s, [NotificationListenerCalled k (js_get obj ''params''), Rejected e])
                     | Inr u \<Rightarrow>
                         (s, [NotificationListenerCalled k (js_get obj ''params'')]))
                | None \<Rightarrow> (s, [])))
      | Inr False \<Rightarrow>
          (if js_get obj ''id'' \<noteq> JNull then
             (case map_get (pendingRequests s) (js_get obj ''id'') of
                Some request \<Rightarrow>
                  (case responseListeners E (msg_method request) of
                     Some fn \<Rightarrow>
                       (case fn request obj of
                          Inl e \<Rightarrow>
                            (s, [ResponseListenerCalled (msg_method request) request obj, Rejected e])
                        | Inr shouldRemove \<Rightarrow>
                            ((if shouldRemove
                              then s\<lparr>pendingRequests := map_delete (pendingRequests s) (js_get obj ''id'')\<rparr>
                              else s),
                             [ResponseListenerCalled (msg_method request) request obj]))
                   | None \<Rightarrow> (s, []))
              | None \<Rightarrow> (s, [ShowErrorMessage ''Pending request not found.'']))
           else (s, [ConsoleLog obj, ShowErrorMessage ''Missing id field form response.''])))"

section \<open>The decoder: \<^verbatim>\<open>onMessageReceived\<close>\<close>

text \<open>
  A call of \<^verbatim>\<open>onMessageReceived\<close> either returns, or is left by the
  \<^verbatim>\<open>SyntaxError\<close> of \<^verbatim>\<open>JSON.parse\<close> (nothing in the file catches it, so the rest of
  the chunk is not read), or never returns: with \<^verbatim>\<open>msgStage\<close> outside \<^verbatim>\<open>0, 1, 2\<close>
  no branch of the \<^verbatim>\<open>while\<close> body moves \<^verbatim>\<open>beginIndex\<close>. Each outcome carries the
  module variables and the trace at that point.
\<close>

datatype outcome =
    Returned transport "event list"
  | Threw exception transport "event list"
  | Spins transport "event list"

fun emit :: "event list \<Rightarrow> outcome \<Rightarrow> outcome" where
  "emit evs (Returned s t) = Returned s (evs @ t)"
| "emit evs (Threw e s t) = Threw e s (evs @ t)"
| "emit evs (Spins s t) = Spins s (evs @ t)"

text \<open>
  \<^verbatim>\<open>mainwhile\<close> is the labelled \<^verbatim>\<open>while (beginIndex < data.length)\<close>, applied to
  the part of \<^verbatim>\<open>data\<close> from \<^verbatim>\<open>beginIndex\<close> on; \<^verbatim>\<open>for0\<close>, \<^verbatim>\<open>for1\<close> and
  \<^verbatim>\<open>for2\<close> are the \<^verbatim>\<open>for\<close> statements of the three stages, applied to the part of
  \<^verbatim>\<open>data\<close> from \<^verbatim>\<open>i\<close> on. \<^verbatim>\<open>continue mainwhile\<close> after \<^verbatim>\<open>beginIndex = i+1\<close> is the call
  of \<^verbatim>\<open>mainwhile\<close> on the rest; a \<^verbatim>\<open>for\<close> loop that reaches the end of \<^verbatim>\<open>data\<close>
  sets \<^verbatim>\<open>beginIndex = data.length\<close>, which ends the \<^verbatim>\<open>while\<close>.
\<close>

fun mainwhile :: "env \<Rightarrow> transport \<Rightarrow> string \<Rightarrow> outcome"
  and for0 :: "env \<Rightarrow> transport \<Rightarrow> string \<Rightarrow> outcome"
  and for1 :: "env \<Rightarrow> transport \<Rightarrow> string \<Rightarrow> outcome"
  and for2 :: "env \<Rightarrow> transport \<Rightarrow> string \<Rightarrow> outcome"
where
  "mainwhile E s [] = Returned s []"
| "mainwhile E s (c # cs) =
     (if msgStage s = 0 then for0 E s (c # cs)
      else if msgStage s = 1 then for1 E s (c # cs)
      else if msgStage s = 2 then for2 E s (c # cs)
      else Spins s [])"
| "for0 E s [] = Returned s []"
| "for0 E s (c # cs) =
     (if c = LF then
        mainwhile E
          (s\<lparr>awaitLength := to_number (js_substring (received s) contentLength
                                          (int (length (received s)) - 1)),
             received := [],
             msgStage := 1\<rparr>) cs
      else for0 E (s\<lparr>received := received s @ [c]\<rparr>) cs)"
| "for1 E s [] = Returned s []"
| "for1 E s (c # cs) =
     (if c = LF then
        (if length (received s) = 1
         then mainwhile E (s\<lparr>received := [], msgStage := 2\<rparr>) cs
         else for1 E (s\<lparr>received := []\<rparr>) cs)
      else for1 E (s\<lparr>received := received s @ [c]\<rparr>) cs)"
| "for2 E s [] = Returned s []"
| "for2 E s (c # cs) =
     (let s1 = s\<lparr>readLength := readLength s + 1, received := received s @ [c]\<rparr>
      in if awaitLength s1 = Finite (of_nat (readLength s1)) then
           (let s2 = s1\<lparr>msgStage := 0, readLength := 0\<rparr>
            in case JSON_parse E (received s2) of
                 Inl e \<Rightarrow> Threw e s2 []
               | Inr obj \<Rightarrow>
                   (case interpretMessage E s2 obj of
                      (s3, evs) \<Rightarrow>
                        emit (Interpreted obj # evs) (mainwhile E (s3\<lparr>received := []\<rparr>) cs)))
         else for2 E s1 cs)"

definition onMessageReceived :: "env \<Rightarrow> transport \<Rightarrow> string \<Rightarrow> outcome" where
  "onMessageReceived E s data = mainwhile E s data"

text \<open>
  The chunks of a stream are handed to \<^verbatim>\<open>onMessageReceived\<close> one after the other, as
  the \<^verbatim>\<open>data\<close> events of \<^verbatim>\<open>fserver.stdout\<close> arrive. A call that throws or never
  returns ends the run here.
\<close>

fun feed :: "env \<Rightarrow> transport \<Rightarrow> string list \<Rightarrow> outcome" where
  "feed E s [] = Returned s []"
| "feed E s (chunk # chunks) =
     (case onMessageReceived E s chunk of
        Returned s' t \<Rightarrow> emit t (feed E s' chunks)
      | Threw e s' t \<Rightarrow> Threw e s' t
      | Spins s' t \<Rightarrow> Spins s' t)"

section \<open>Notions used to state the properties\<close>

text \<open>
  Running one outcome into the next call: the trace is continued when the first call
  returned, and nothing follows a call that threw or never returns.
\<close>

fun and_then :: "outcome \<Rightarrow> (transport \<Rightarrow> outcome) \<Rightarrow> outcome" where
  "and_then (Returned s t) f = emit t (f s)"
| "and_then (Threw e s t) f = Threw e s t"
| "and_then (Spins s t) f = Spins s t"

text \<open>
  The decoder between two frames: stage \<^verbatim>\<open>0\<close>, nothing accumulated, nothing counted.
  The payloads of a trace are the arguments of the calls of \<^verbatim>\<open>interpretMessage\<close>, in
  order.
\<close>

definition idle :: "transport \<Rightarrow> bool" where
  "idle s \<longleftrightarrow> msgStage s = 0 \<and> received s = [] \<and> readLength s = 0"

fun payloads :: "event list \<Rightarrow> jsval list" where
  "payloads [] = []"
| "payloads (Interpreted obj # t) = obj # payloads t"
| "payloads (ev # t) = payloads t"

text \<open>
  The lines under \<^verbatim>\<open>// Parse and react\<close>, which run when \<^verbatim>\<open>readLength\<close> has reached
  \<^verbatim>\<open>awaitLength\<close>; \<^verbatim>\<open>s2\<close> is the state after \<^verbatim>\<open>msgStage = 0; readLength = 0\<close>.
\<close>

definition parse_and_react :: "env \<Rightarrow> transport \<Rightarrow> string \<Rightarrow> outcome" where
  "parse_and_react E s2 rest =
     (case JSON_parse E (received s2) of
        Inl e \<Rightarrow> Threw e s2 []
      | Inr obj \<Rightarrow>
          (case interpretMessage E s2 obj of
             (s3, evs) \<Rightarrow> emit (Interpreted obj # evs) (mainwhile E (s3\<lparr>received := []\<rparr>) rest)))"

text \<open>
  The frames that the decoder takes for complete ones. The first line is read up to
  its \<^verbatim>\<open>\n\<close> and gives the length, which has to be the length of the body and not
  zero; any number of further lines follow, none of them one character long; then a
  line of exactly one character \<^verbatim>\<open>c\<close> (the \<^verbatim>\<open>\r\<close> of an empty line ended by
  \<^verbatim>\<open>\r\n\<close>); then the body.
\<close>

definition header_lines :: "string list \<Rightarrow> string" where
  "header_lines ls = concat (map (\<lambda>l. l @ [LF]) ls)"

definition wire :: "string \<Rightarrow> string list \<Rightarrow> char \<Rightarrow> string \<Rightarrow> string" where
  "wire first others c body = first @ [LF] @ header_lines others @ [c, LF] @ body"

definition accepted :: "string \<Rightarrow> string list \<Rightarrow> char \<Rightarrow> string \<Rightarrow> bool" where
  "accepted first others c body \<longleftrightarrow>
     LF \<notin> set first
     \<and> to_number (js_substring first contentLength (int (length first) - 1))
         = Finite (of_nat (length body))
     \<and> list_all (\<lambda>l. LF \<notin> set l \<and> length l \<noteq> 1) others
     \<and> c \<noteq> LF
     \<and> body \<noteq> []"

text \<open>
  The module variables at the end of a call, the condition on \<^verbatim>\<open>pendingRequests\<close> that
  every stored request sits under its own id, and the states that calls of
  \<^verbatim>\<open>sendRequest\<close>, \<^verbatim>\<open>interpretMessage\<close> and \<^verbatim>\<open>onMessageReceived\<close> lead to from the
  initial one. \<^verbatim>\<open>plain_env\<close> is an environment without listeners in which every
  message is serialized as \<^verbatim>\<open>{}\<close> and numbers are given their decimal digits (the
  text JavaScript gives the integers below \<^verbatim>\<open>2^53\<close>).
\<close>

fun final :: "outcome \<Rightarrow> transport" where
  "final (Returned s t) = s"
| "final (Threw e s t) = s"
| "final (Spins s t) = s"

definition ledger_ok :: "transport \<Rightarrow> bool" where
  "ledger_ok s \<longleftrightarrow> (\<forall>k r. pendingRequests s k = Some r \<longrightarrow> msg_id r = k)"

inductive_set reachable :: "env \<Rightarrow> transport set" for E :: env where
  reach_initial: "initial \<in> reachable E"
| reach_sendRequest: "s \<in> reachable E \<Longrightarrow> fst (sendRequest E uuid method params s) \<in> reachable E"
| reach_interpretMessage: "s \<in> reachable E \<Longrightarrow> fst (interpretMessage E s obj) \<in> reachable E"
| reach_onMessageReceived: "s \<in> reachable E \<Longrightarrow> final (onMessageReceived E s data) \<in> reachable E"

definition plain_env :: env where
  "plain_env = \<lparr>notificationListeners = Map.empty, requestListeners = Map.empty,
     responseListeners = Map.empty, JSON_stringify = (\<lambda>v. ''{}''),
     JSON_parse = (\<lambda>text. if text = ''{}'' then Inr (JObj []) else Inl SyntaxError),
     Number_toString = dec_int\<rparr>"

text \<open>
  Two more environments: one with response listeners under the two names that
  \<^verbatim>\<open>activate\<close> registers, which return \<^verbatim>\<open>true\<close>, one whose request and notification
  listeners throw.
\<close>

definition activated_env :: env where
  "activated_env = plain_env
     \<lparr>responseListeners := [''initialize'' \<mapsto> (\<lambda>request response. Inr True),
                            ''shutdown'' \<mapsto> (\<lambda>request response. Inr True)]\<rparr>"

definition failing_env :: env where
  "failing_env = plain_env
     \<lparr>notificationListeners := [''note'' \<mapsto> (\<lambda>params. Inl (Thrown (JStr ''failed'')))],
      requestListeners := [''ask'' \<mapsto> (\<lambda>params. Inl (Thrown (JStr ''failed'')))]\<rparr>"

section \<open>Decimal digits and \<^verbatim>\<open>StringToNumber\<close>\<close>

lemma is_digit_in_10_iff: "is_digit_in 10 c \<longleftrightarrow> 48 \<le> (of_char c :: nat) \<and> (of_char c :: nat) \<le> 57"
  by (auto simp: is_digit_in_def digit_value_def Let_def split: option.splits if_splits)

lemma digit_value_10: "is_digit_in 10 c \<Longrightarrow> digit_value c = Some (of_char c - 48)"
  by (auto simp: is_digit_in_def digit_value_def Let_def split: option.splits if_splits)

lemma of_char_digit_char: "d < 10 \<Longrightarrow> (of_char (digit_char d) :: nat) = 48 + d"
  by (simp add: digit_char_def)

lemma is_digit_digit_char: "d < 10 \<Longrightarrow> is_digit_in 10 (digit_char d)"
  by (simp add: is_digit_in_10_iff of_char_digit_char)

lemma digit_value_digit_char: "d < 10 \<Longrightarrow> digit_value (digit_char d) = Some d"
  by (simp add: digit_value_10 is_digit_digit_char of_char_digit_char)

lemma dec_all_digits: "list_all (is_digit_in 10) (dec n)"
proof (induction n rule: dec.induct)
  case (1 n)
  show ?case
  proof (cases "n < 10")
    case True
    then show ?thesis by (simp add: dec.simps [of n] is_digit_digit_char)
  next
    case False
    with 1 show ?thesis by (simp add: dec.simps [of n] is_digit_digit_char)
  qed
qed

lemma dec_not_Nil: "dec n \<noteq> []"
  by (subst dec.simps) simp

lemma digits_value_snoc:
  "digits_value b (ds @ [c]) = digits_value b ds * b + (case digit_value c of None \<Rightarrow> 0 | Some d \<Rightarrow> d)"
  by (simp add: digits_value_def)

lemma digits_value_dec: "digits_value 10 (dec n) = n"
proof (induction n rule: dec.induct)
  case (1 n)
  show ?case
  proof (cases "n < 10")
    case True
    then show ?thesis
      by (simp add: dec.simps [of n] digits_value_def digit_value_digit_char)
  next
    case False
    with 1 show ?thesis
      by (simp add: dec.simps [of n] digits_value_snoc digit_value_digit_char)
  qed
qed

lemma digit_not_white: "is_digit_in 10 c \<Longrightarrow> \<not> is_white c"
  by (auto simp: is_digit_in_10_iff is_white_def)

lemma trim_digits:
  assumes "list_all (is_digit_in 10) s"
  shows "trim s = s"
proof (cases s rule: rev_cases)
  case Nil
  then show ?thesis by (simp add: trim_def)
next
  case (snoc ys y)
  with assms have y: "\<not> is_white y" by (simp add: digit_not_white)
  have "dropWhile is_white s = s"
    using assms by (cases s) (simp_all add: digit_not_white)
  then show ?thesis using snoc y by (simp add: trim_def)
qed

lemma radix_prefix_digits:
  assumes "list_all (is_digit_in 10) s"
  shows "radix_prefix s = None"
proof (cases s)
  case Nil
  then show ?thesis by (simp add: radix_prefix_def)
next
  case (Cons z t)
  show ?thesis
  proof (cases t)
    case Nil
    with Cons show ?thesis by (simp add: radix_prefix_def)
  next
    case (Cons x ds)
    with assms \<open>s = z # t\<close> have "is_digit_in 10 x" by simp
    then have "x \<noteq> CHR ''x''" "x \<noteq> CHR ''X''" "x \<noteq> CHR ''o''" "x \<noteq> CHR ''O''"
      "x \<noteq> CHR ''b''" "x \<noteq> CHR ''B''"
      by (auto simp: is_digit_in_10_iff)
    with Cons \<open>s = z # t\<close> show ?thesis by (simp add: radix_prefix_def)
  qed
qed

lemma str_unsigned_decimal_digits:
  assumes "list_all (is_digit_in 10) s" and "s \<noteq> []"
  shows "str_unsigned_decimal s = Finite (of_nat (digits_value 10 s))"
proof -
  have tw: "takeWhile (is_digit_in 10) s = s" and dw: "dropWhile (is_digit_in 10) s = []"
    using assms(1) by (simp_all add: list_all_iff)
  have "is_digit_in 10 (hd s)" using assms by (cases s) simp_all
  then have "hd s \<noteq> CHR ''I''" by (auto simp: is_digit_in_10_iff)
  then have ni: "s \<noteq> ''Infinity''" by auto
  show ?thesis
    using assms(2) ni
    by (simp add: str_unsigned_decimal_def tw dw exponent_part_def scale10_def)
qed

lemma to_number_digits:
  assumes "list_all (is_digit_in 10) s" and "s \<noteq> []"
  shows "to_number s = Finite (of_nat (digits_value 10 s))"
proof -
  obtain c u where s: "s = c # u" using assms(2) by (cases s) auto
  with assms(1) have "is_digit_in 10 c" by simp
  then have "c \<noteq> CHR ''+''" "c \<noteq> CHR ''-''" by (auto simp: is_digit_in_10_iff)
  moreover have "trim s = s" "radix_prefix s = None"
    using assms(1) by (simp_all add: trim_digits radix_prefix_digits)
  moreover note str_unsigned_decimal_digits [OF assms]
  ultimately show ?thesis
    unfolding to_number_def s by simp
qed

lemma to_number_dec: "to_number (dec n) = Finite (of_nat n)"
  by (simp add: to_number_digits dec_all_digits dec_not_Nil digits_value_dec)

lemma to_number_2: "to_number ''2'' = Finite 2"
  using to_number_digits [of "''2''"]
  by (simp add: is_digit_in_10_iff digits_value_def digit_value_def)

lemma to_number_empty: "to_number [] = Finite 0"
  by (simp add: to_number_def trim_def)

lemma to_number_ab: "to_number ''ab'' = NaN"
  by (simp add: to_number_def trim_def is_white_def radix_prefix_def str_unsigned_decimal_def
      is_digit_in_def digit_value_def)

section \<open>Chunks\<close>

lemma emit_Nil [simp]: "emit [] r = r"
  by (cases r) simp_all

lemma emit_emit [simp]: "emit a (emit b r) = emit (a @ b) r"
  by (cases r) simp_all

lemma and_then_emit [simp]: "and_then (emit a r) f = emit a (and_then r f)"
  by (cases r) simp_all

lemma mainwhile_stage0: "msgStage s = 0 \<Longrightarrow> mainwhile E s d = for0 E s d"
  by (cases d) simp_all

lemma mainwhile_stage1: "msgStage s = 1 \<Longrightarrow> mainwhile E s d = for1 E s d"
  by (cases d) simp_all

lemma mainwhile_stage2: "msgStage s = 2 \<Longrightarrow> mainwhile E s d = for2 E s d"
  by (cases d) simp_all

lemma mainwhile_append_aux:
  "mainwhile E s xs = r \<Longrightarrow> mainwhile E s (xs @ ys) = and_then r (\<lambda>s'. mainwhile E s' ys)"
  "msgStage s = 0 \<Longrightarrow> for0 E s xs = r \<Longrightarrow> for0 E s (xs @ ys) = and_then r (\<lambda>s'. mainwhile E s' ys)"
  "msgStage s = 1 \<Longrightarrow> for1 E s xs = r \<Longrightarrow> for1 E s (xs @ ys) = and_then r (\<lambda>s'. mainwhile E s' ys)"
  "msgStage s = 2 \<Longrightarrow> for2 E s xs = r \<Longrightarrow> for2 E s (xs @ ys) = and_then r (\<lambda>s'. mainwhile E s' ys)"
proof (induction E s xs and E s xs and E s xs and E s xs arbitrary: r and r and r and r
    rule: mainwhile_for0_for1_for2.induct)
  case (1 E s)
  then show ?case by auto
next
  case (2 E s c cs)
  then show ?case
    by (cases ys) auto
next
  case (3 E s)
  then show ?case by (auto simp: mainwhile_stage0)
next
  case (4 E s c cs)
  then show ?case by auto
next
  case (5 E s)
  then show ?case by (auto simp: mainwhile_stage1)
next
  case (6 E s c cs)
  then show ?case by auto
next
  case (7 E s)
  then show ?case by (auto simp: mainwhile_stage2)
next
  case (8 E s c cs)
  then show ?case
    by (auto simp: Let_def split: sum.splits prod.splits)
qed

lemma mainwhile_append:
  "mainwhile E s (xs @ ys) = and_then (mainwhile E s xs) (\<lambda>s'. mainwhile E s' ys)"
  by (rule mainwhile_append_aux(1)) simp

lemma feed_concat: "feed E s chunks = mainwhile E s (concat chunks)"
proof (induction chunks arbitrary: s)
  case Nil
  then show ?case by simp
next
  case (Cons chunk chunks)
  show ?case
    by (cases "mainwhile E s chunk")
      (simp_all add: onMessageReceived_def mainwhile_append Cons.IH)
qed

section \<open>Decoding one frame\<close>

lemma for0_line:
  "LF \<notin> set line \<Longrightarrow>
   for0 E s (line @ LF # rest) =
     mainwhile E
       (s\<lparr>awaitLength := to_number (js_substring (received s @ line) contentLength
                                      (int (length (received s @ line)) - 1)),
          received := [], msgStage := 1\<rparr>) rest"
  by (induction line arbitrary: s) auto

lemma for1_line:
  "LF \<notin> set line \<Longrightarrow>
   for1 E s (line @ LF # rest) =
     (if length (received s @ line) = 1
      then mainwhile E (s\<lparr>received := [], msgStage := 2\<rparr>) rest
      else for1 E (s\<lparr>received := []\<rparr>) rest)"
  by (induction line arbitrary: s) auto

lemma for2_body:
  "awaitLength s = Finite (of_nat (readLength s + length xs + 1)) \<Longrightarrow>
   for2 E s (xs @ c # rest) =
     parse_and_react E (s\<lparr>received := received s @ xs @ [c], msgStage := 0, readLength := 0\<rparr>) rest"
proof (induction xs arbitrary: s)
  case Nil
  then show ?case by (simp add: Let_def parse_and_react_def)
next
  case (Cons x xs)
  let ?s1 = "s\<lparr>readLength := readLength s + 1, received := received s @ [x]\<rparr>"
  have ne: "awaitLength ?s1 \<noteq> Finite (of_nat (readLength ?s1))"
    using Cons.prems by simp
  have aw: "awaitLength ?s1 = Finite (of_nat (readLength ?s1 + length xs + 1))"
    using Cons.prems by simp
  have step: "for2 E s ((x # xs) @ c # rest) = for2 E ?s1 (xs @ c # rest)"
    using ne by (simp add: Let_def)
  show ?case
    unfolding step Cons.IH [OF aw] by simp
qed

lemma LF_not_digit: "list_all (is_digit_in 10) ds \<Longrightarrow> LF \<notin> set ds"
  by (auto simp: list_all_iff is_digit_in_10_iff LF_def)

lemma header_no_LF: "LF \<notin> set (''Content-Length: '' @ dec n @ [CR])"
  using LF_not_digit [OF dec_all_digits, of n] by (simp add: LF_def CR_def)

lemma header_substring:
  "js_substring (''Content-Length: '' @ ds @ [c]) contentLength
     (int (length (''Content-Length: '' @ ds @ [c])) - 1) = ds"
  by (simp add: js_substring_def contentLength_def Let_def)

lemma interpretMessage_result:
  "interpretMessage E s obj = (s', evs) \<Longrightarrow>
     msgStage s' = msgStage s \<and> readLength s' = readLength s \<and> received s' = received s
     \<and> awaitLength s' = awaitLength s"
  by (auto simp: interpretMessage_def
      split: sum.splits bool.splits option.splits prod.splits if_splits)

lemma interpretMessage_fields:
  "msgStage (fst (interpretMessage E s obj)) = msgStage s"
  "readLength (fst (interpretMessage E s obj)) = readLength s"
  "received (fst (interpretMessage E s obj)) = received s"
  "awaitLength (fst (interpretMessage E s obj)) = awaitLength s"
  using interpretMessage_result [of E s obj "fst (interpretMessage E s obj)"
      "snd (interpretMessage E s obj)"]
  by simp_all


lemma payloads_interpretMessage: "payloads (snd (interpretMessage E s obj)) = []"
  by (simp add: interpretMessage_def sendResponse_def Let_def
      split: sum.splits bool.splits option.splits prod.splits)

lemma frame_decoded:
  assumes "idle s" and "body \<noteq> []"
  shows "mainwhile E s (frame body @ rest) =
     parse_and_react E (s\<lparr>awaitLength := Finite (of_nat (length body)), received := body\<rparr>) rest"
proof -
  let ?n = "length body"
  let ?h = "''Content-Length: '' @ dec ?n @ [CR]"
  let ?s1 = "s\<lparr>awaitLength := Finite (of_nat ?n), received := [], msgStage := 1\<rparr>"
  let ?s2 = "s\<lparr>awaitLength := Finite (of_nat ?n), received := [], msgStage := 2\<rparr>"
  obtain ys y where body: "body = ys @ [y]"
    using assms(2) by (cases body rule: rev_cases) auto
  have fr: "frame body @ rest = ?h @ LF # ([CR] @ LF # (ys @ y # rest))"
    by (simp add: frame_def body)
  have "mainwhile E s (frame body @ rest) = for0 E s (?h @ LF # ([CR] @ LF # (ys @ y # rest)))"
    using assms(1) by (simp only: fr mainwhile_stage0 idle_def)
  also have "\<dots> = mainwhile E ?s1 ([CR] @ LF # (ys @ y # rest))"
    using assms(1)
    by (simp only: for0_line [OF header_no_LF])
      (simp add: idle_def header_substring [of "dec ?n" CR, simplified] to_number_dec)
  also have "\<dots> = for1 E ?s1 ([CR] @ LF # (ys @ y # rest))"
    by (rule mainwhile_stage1) simp
  also have "\<dots> = mainwhile E ?s2 (ys @ y # rest)"
    by (subst for1_line) (simp_all add: LF_def CR_def)
  also have "\<dots> = for2 E ?s2 (ys @ y # rest)"
    by (rule mainwhile_stage2) simp
  also have "\<dots> = parse_and_react E
      (?s2\<lparr>received := received ?s2 @ ys @ [y], msgStage := 0, readLength := 0\<rparr>) rest"
    using assms(1) by (intro for2_body) (simp add: idle_def body)
  also have "?s2\<lparr>received := received ?s2 @ ys @ [y], msgStage := 0, readLength := 0\<rparr>
      = s\<lparr>awaitLength := Finite (of_nat (length body)), received := body\<rparr>"
    using assms(1) by (simp add: idle_def body)
  finally show ?thesis .
qed

subsection \<open>Decoding any frame that the decoder accepts\<close>



lemma frame_wire:
  "frame body = wire (''Content-Length: '' @ dec (length body) @ [CR]) [] CR body"
  by (simp add: frame_def wire_def header_lines_def)

lemma frame_accepted:
  "body \<noteq> [] \<Longrightarrow> accepted (''Content-Length: '' @ dec (length body) @ [CR]) [] CR body"
  using header_no_LF [of "length body"] header_substring [of "dec (length body)" CR]
  by (simp add: accepted_def to_number_dec LF_def CR_def)

section \<open>Properties\<close>

subsection \<open>What the three senders write\<close>

lemma sendRequest_writes:
  "snd (sendRequest E uuid method params s) =
     [Write (frame (JSON_stringify E (request_object
        \<lparr>msg_id = IdStr uuid, msg_jsonrpc = ''2.0'', msg_method = method, msg_params = params\<rparr>)))]"
  by (simp add: sendRequest_def Let_def)

lemma sendNotification_writes:
  "sendNotification E method params =
     [Write (frame (JSON_stringify E (notification_object method params)))]"
  by (simp add: sendNotification_def)

lemma sendResponse_writes:
  "sendResponse E request res err =
     [Write (frame (JSON_stringify E (response_object request res err)))]"
  by (simp add: sendResponse_def)

lemma frame_2: "frame ''{}'' = ''Content-Length: 2'' @ [CR, LF, CR, LF] @ ''{}''"
  by code_simp

subsection \<open>Round trip\<close>

text \<open>
  C1. Every sender writes \<^term>\<open>frame (JSON_stringify E msg)\<close> for the message object
  \<^term>\<open>msg\<close> it has built (see the three lemmas above). When this text, cut into
  chunks at any places (empty chunks included), is given chunk by chunk to
  \<^verbatim>\<open>onMessageReceived\<close> with the decoder between two frames, the run returns,
  \<^verbatim>\<open>interpretMessage\<close> has been called exactly once, with the value that
  \<^verbatim>\<open>JSON.parse\<close> makes of the serialized message, and the decoder is between two
  frames again. \<^verbatim>\<open>JSON.stringify\<close> of a message object is never the empty text, and
  \<^verbatim>\<open>JSON.parse\<close> accepts it.
\<close>

theorem round_trip:
  assumes "concat chunks = frame (JSON_stringify E msg)"
    and "JSON_stringify E msg \<noteq> []"
    and "JSON_parse E (JSON_stringify E msg) = Inr p"
    and "idle s"
  shows "\<exists>s' t. feed E s chunks = Returned s' t \<and> payloads t = [p] \<and> idle s'"
proof -
  let ?body = "JSON_stringify E msg"
  let ?s2 = "s\<lparr>awaitLength := Finite (of_nat (length ?body)), received := ?body\<rparr>"
  obtain s3 evs where im: "interpretMessage E ?s2 p = (s3, evs)"
    by (cases "interpretMessage E ?s2 p")
  have pl: "payloads evs = []"
    using payloads_interpretMessage [of E ?s2 p] im by simp
  have "feed E s chunks = mainwhile E s (frame ?body @ [])"
    using assms(1) by (simp add: feed_concat)
  also have "\<dots> = parse_and_react E ?s2 []"
    using assms(4,2) by (rule frame_decoded)
  also have "\<dots> = Returned (s3\<lparr>received := []\<rparr>) (Interpreted p # evs)"
    using assms(3) im by (simp add: parse_and_react_def)
  finally have "feed E s chunks = Returned (s3\<lparr>received := []\<rparr>) (Interpreted p # evs)" .
  moreover have "payloads (Interpreted p # evs) = [p]"
    using pl by simp
  moreover have "idle (s3\<lparr>received := []\<rparr>)"
    using interpretMessage_fields [of E ?s2 p] im assms(4) by (simp add: idle_def)
  ultimately show ?thesis by blast
qed

theorem round_trip_witness:
  "\<exists>s' t. feed plain_env initial
       [''Content-Len'', ''gth: 2'' @ [CR], [LF, CR, LF] @ ''{'', [], ''}''] = Returned s' t
     \<and> payloads t = [JObj []] \<and> idle s'"
  using round_trip [of "[''Content-Len'', ''gth: 2'' @ [CR], [LF, CR, LF] @ ''{'', [], ''}'']"
      plain_env "JObj []" "JObj []" initial]
  by (simp add: plain_env_def frame_2 idle_def initial_def)

subsection \<open>Two frames in one chunk\<close>




subsection \<open>Line ends\<close>

text \<open>
  C4, as the code has it. In stage \<^verbatim>\<open>1\<close> a \<^verbatim>\<open>\n\<close> sends the decoder to stage
  \<^verbatim>\<open>2\<close> exactly when the line accumulated before it is one character long (the
  \<^verbatim>\<open>\r\<close> of a \<^verbatim>\<open>\r\n\<close>; the character itself is not looked at). After an empty line
  (a bare \<^verbatim>\<open>\n\<close>) or a longer one the decoder clears the line and stays in stage
  \<^verbatim>\<open>1\<close>. \<^verbatim>\<open>readLength\<close> is not written at this point: it is set to \<^verbatim>\<open>0\<close> when a
  body is complete.
\<close>

theorem header_end_terminator:
  assumes "msgStage s = 1"
  shows "onMessageReceived E s (LF # rest) =
     (if length (received s) = 1
      then onMessageReceived E (s\<lparr>received := [], msgStage := 2\<rparr>) rest
      else onMessageReceived E (s\<lparr>received := []\<rparr>) rest)"
  using assms by (simp add: onMessageReceived_def mainwhile_stage1)

theorem header_end_terminator_witness:
  "onMessageReceived plain_env (initial\<lparr>msgStage := 1, received := [CR]\<rparr>) [LF]
     = Returned (initial\<lparr>msgStage := 2, received := []\<rparr>) []
   \<and> onMessageReceived plain_env (initial\<lparr>msgStage := 1\<rparr>) [LF]
     = Returned (initial\<lparr>msgStage := 1\<rparr>) []"
  using header_end_terminator [of "initial\<lparr>msgStage := 1, received := [CR]\<rparr>" plain_env "[]"]
    header_end_terminator [of "initial\<lparr>msgStage := 1\<rparr>" plain_env "[]"]
  by (simp add: onMessageReceived_def initial_def)

text \<open>
  A frame whose lines end in \<^verbatim>\<open>\n\<close> alone is not decoded as the same frame with
  \<^verbatim>\<open>\r\n\<close>: the first line loses its last character before it is read as a number
  (\<^verbatim>\<open>received.substring(contentLength, received.length-1)\<close>), the empty line does not
  end the header, and the body is accumulated as a header line.
\<close>

theorem bare_LF_counterexample:
  "onMessageReceived plain_env initial (''Content-Length: 2'' @ [LF, LF] @ ''{}'')
     = Returned (initial\<lparr>received := ''{}'', msgStage := 1\<rparr>) []
   \<and> onMessageReceived plain_env initial (''Content-Length: 2'' @ [CR, LF, CR, LF] @ ''{}'')
     = Returned (initial\<lparr>awaitLength := Finite 2\<rparr>)
         [Interpreted (JObj []), ShowErrorMessage ''Pending request not found.'']"
  by (simp add: onMessageReceived_def initial_def LF_def CR_def js_substring_def contentLength_def
      to_number_2 to_number_empty plain_env_def interpretMessage_def map_get_def Let_def)

subsection \<open>A length that is not a number\<close>

lemma NaN_silent:
  "awaitLength s = NaN \<Longrightarrow> msgStage s = 1 \<or> msgStage s = 2 \<Longrightarrow>
     \<exists>s'. mainwhile E s d = Returned s' [] \<and> awaitLength s' = NaN \<and> (msgStage s' = 1 \<or> msgStage s' = 2)"
  "True"
  "awaitLength s = NaN \<Longrightarrow> msgStage s = 1 \<Longrightarrow>
     \<exists>s'. for1 E s d = Returned s' [] \<and> awaitLength s' = NaN \<and> (msgStage s' = 1 \<or> msgStage s' = 2)"
  "awaitLength s = NaN \<Longrightarrow> msgStage s = 2 \<Longrightarrow>
     \<exists>s'. for2 E s d = Returned s' [] \<and> awaitLength s' = NaN \<and> (msgStage s' = 1 \<or> msgStage s' = 2)"
proof (induction E s d and E s d and E s d and E s d rule: mainwhile_for0_for1_for2.induct)
  case (8 E s c cs)
  then show ?case by (simp add: Let_def)
qed auto

text \<open>
  C6, as the code has it. When the first line of a stream gives \<^verbatim>\<open>NaN\<close> as the
  length, no call of \<^verbatim>\<open>onMessageReceived\<close> throws or reports anything, whatever
  follows and however it is cut into chunks: the trace stays empty, no payload is ever
  handed to \<^verbatim>\<open>interpretMessage\<close>, and the decoder stays in stages \<^verbatim>\<open>1\<close> and
  \<^verbatim>\<open>2\<close> with \<^verbatim>\<open>awaitLength\<close> equal to \<^verbatim>\<open>NaN\<close>, accumulating what it reads.
\<close>

theorem unparsable_length_is_silent:
  assumes "msgStage s = 0" and "received s = []"
    and "LF \<notin> set line"
    and "to_number (js_substring line contentLength (int (length line) - 1)) = NaN"
    and "concat chunks = line @ LF # rest"
  shows "\<exists>s'. feed E s chunks = Returned s' [] \<and> awaitLength s' = NaN
           \<and> (msgStage s' = 1 \<or> msgStage s' = 2)"
proof -
  let ?s1 = "s\<lparr>awaitLength := NaN, received := [], msgStage := 1\<rparr>"
  have "feed E s chunks = for0 E s (line @ LF # rest)"
    using assms(1,5) by (simp add: feed_concat mainwhile_stage0)
  also have "\<dots> = mainwhile E ?s1 rest"
    using assms(2,4) by (simp add: for0_line [OF assms(3)])
  finally show ?thesis
    using NaN_silent(1) [of ?s1 E rest] by simp
qed

theorem unparsable_length_is_silent_witness:
  "\<exists>s'. feed plain_env initial [''Content-Length: ab'' @ [CR, LF, CR], LF # ''{}'', ''{}'']
      = Returned s' [] \<and> awaitLength s' = NaN \<and> (msgStage s' = 1 \<or> msgStage s' = 2)"
  using unparsable_length_is_silent [of initial "''Content-Length: ab'' @ [CR]"
      "[''Content-Length: ab'' @ [CR, LF, CR], LF # ''{}'', ''{}'']" "[CR, LF] @ ''{}{}''" plain_env]
  by (simp add: initial_def LF_def CR_def js_substring_def contentLength_def to_number_ab)

theorem unparsable_length_counterexample:
  "onMessageReceived plain_env initial (''Content-Length: ab'' @ [CR, LF, CR, LF] @ ''{}'')
     = Returned (initial\<lparr>readLength := 2, received := ''{}'', awaitLength := NaN, msgStage := 2\<rparr>) []"
  by (simp add: onMessageReceived_def initial_def LF_def CR_def js_substring_def contentLength_def
      to_number_ab Let_def)

subsection \<open>The variables at the end of a call\<close>

lemma final_emit [simp]: "final (emit evs r) = final r"
  by (cases r) simp_all

lemma interpretMessage_state:
  "interpretMessage E s obj = (s', evs) \<Longrightarrow>
   s' =
     (if js_in ''method'' obj = Inr False \<and> js_get obj ''id'' \<noteq> JNull
      then (case map_get (pendingRequests s) (js_get obj ''id'') of
              None \<Rightarrow> s
            | Some request \<Rightarrow>
                (case responseListeners E (msg_method request) of
                   None \<Rightarrow> s
                 | Some fn \<Rightarrow>
                     if fn request obj = Inr True
                     then s\<lparr>pendingRequests := map_delete (pendingRequests s) (js_get obj ''id'')\<rparr>
                     else s))
      else s)"
  by (auto simp: interpretMessage_def
      split: sum.splits bool.splits option.splits prod.splits if_splits)

lemma fst_interpretMessage:
  "fst (interpretMessage E s obj) =
     (if js_in ''method'' obj = Inr False \<and> js_get obj ''id'' \<noteq> JNull
      then (case map_get (pendingRequests s) (js_get obj ''id'') of
              None \<Rightarrow> s
            | Some request \<Rightarrow>
                (case responseListeners E (msg_method request) of
                   None \<Rightarrow> s
                 | Some fn \<Rightarrow>
                     if fn request obj = Inr True
                     then s\<lparr>pendingRequests := map_delete (pendingRequests s) (js_get obj ''id'')\<rparr>
                     else s))
      else s)"
  by (rule interpretMessage_state [of E s obj _ "snd (interpretMessage E s obj)"]) simp

lemma interpretMessage_state_listeners:
  "fst (interpretMessage (E\<lparr>requestListeners := rl, notificationListeners := nl\<rparr>) s obj)
     = fst (interpretMessage E s obj)"
  by (simp add: fst_interpretMessage cong: option.case_cong)

lemma final_listeners_aux:
  "final (mainwhile (E\<lparr>requestListeners := rl, notificationListeners := nl\<rparr>) s d) = final (mainwhile E s d)"
  "final (for0 (E\<lparr>requestListeners := rl, notificationListeners := nl\<rparr>) s d) = final (for0 E s d)"
  "final (for1 (E\<lparr>requestListeners := rl, notificationListeners := nl\<rparr>) s d) = final (for1 E s d)"
  "final (for2 (E\<lparr>requestListeners := rl, notificationListeners := nl\<rparr>) s d) = final (for2 E s d)"
proof (induction E s d and E s d and E s d and E s d rule: mainwhile_for0_for1_for2.induct)
  case (8 E s c cs)
  let ?E' = "E\<lparr>requestListeners := rl, notificationListeners := nl\<rparr>"
  let ?s1 = "s\<lparr>readLength := readLength s + 1, received := received s @ [c]\<rparr>"
  let ?s2 = "?s1\<lparr>msgStage := 0, readLength := 0\<rparr>"
  show ?case
  proof (cases "awaitLength ?s1 = Finite (of_nat (readLength ?s1))")
    case False
    then show ?thesis using 8(2) [OF refl] by (simp add: Let_def)
  next
    case True
    show ?thesis
    proof (cases "JSON_parse E (received ?s2)")
      case (Inl e)
      then show ?thesis using True by (simp add: Let_def)
    next
      case (Inr obj)
      obtain s3 evs where im: "interpretMessage E ?s2 obj = (s3, evs)"
        by (cases "interpretMessage E ?s2 obj")
      obtain s3' evs' where im': "interpretMessage ?E' ?s2 obj = (s3', evs')"
        by (cases "interpretMessage ?E' ?s2 obj")
      have "s3' = s3"
        using interpretMessage_state_listeners [where E = E and rl = rl and nl = nl and s = ?s2 and obj = obj]
          im im' by simp
      then show ?thesis
        using True Inr im im' 8(1) [OF refl True refl Inr im [symmetric]]
        by (simp add: Let_def)
    qed
  qed
qed simp_all

lemma ledger_ok_decoder [simp]:
  "ledger_ok (s\<lparr>received := r\<rparr>) = ledger_ok s"
  "ledger_ok (s\<lparr>msgStage := n\<rparr>) = ledger_ok s"
  "ledger_ok (s\<lparr>readLength := k\<rparr>) = ledger_ok s"
  "ledger_ok (s\<lparr>awaitLength := a\<rparr>) = ledger_ok s"
  by (simp_all add: ledger_ok_def)

lemma ledger_ok_delete: "ledger_ok s \<Longrightarrow> ledger_ok (s\<lparr>pendingRequests := map_delete (pendingRequests s) v\<rparr>)"
  by (auto simp: ledger_ok_def map_delete_def split: option.splits if_splits)

lemma ledger_ok_interpretMessage: "ledger_ok s \<Longrightarrow> ledger_ok (fst (interpretMessage E s obj))"
  by (simp add: fst_interpretMessage ledger_ok_delete split: option.splits)

lemma ledger_ok_sendRequest: "ledger_ok s \<Longrightarrow> ledger_ok (fst (sendRequest E uuid method params s))"
  by (simp add: sendRequest_def Let_def ledger_ok_def)

lemma ledger_ok_mainwhile:
  "ledger_ok s \<Longrightarrow> ledger_ok (final (mainwhile E s d))"
  "ledger_ok s \<Longrightarrow> ledger_ok (final (for0 E s d))"
  "ledger_ok s \<Longrightarrow> ledger_ok (final (for1 E s d))"
  "ledger_ok s \<Longrightarrow> ledger_ok (final (for2 E s d))"
proof (induction E s d and E s d and E s d and E s d rule: mainwhile_for0_for1_for2.induct)
  case (8 E s c cs)
  let ?s1 = "s\<lparr>readLength := readLength s + 1, received := received s @ [c]\<rparr>"
  let ?s2 = "?s1\<lparr>msgStage := 0, readLength := 0\<rparr>"
  show ?case
  proof (cases "awaitLength ?s1 = Finite (of_nat (readLength ?s1))")
    case False
    then show ?thesis using 8(2) [OF refl] 8(3) by (simp add: Let_def)
  next
    case True
    show ?thesis
    proof (cases "JSON_parse E (received ?s2)")
      case (Inl e)
      then show ?thesis using True 8(3) by (simp add: Let_def)
    next
      case (Inr obj)
      obtain s3 evs where im: "interpretMessage E ?s2 obj = (s3, evs)"
        by (cases "interpretMessage E ?s2 obj")
      have "ledger_ok s3"
        using ledger_ok_interpretMessage [of ?s2 E obj] im 8(3) by simp
      then have "ledger_ok (final (mainwhile E (s3\<lparr>received := []\<rparr>) cs))"
        using 8(1) [OF refl True refl Inr im [symmetric]] by simp
      then show ?thesis
        using True Inr im by (simp add: Let_def)
    qed
  qed
qed simp_all

subsection \<open>Requests for a method without listener\<close>

text \<open>
  C3, as the code has it. A payload with a \<^verbatim>\<open>method\<close> and an \<^verbatim>\<open>id\<close> whose method
  has no entry in \<^verbatim>\<open>requestListeners\<close>. When the method converts to a string (every
  string does, to itself), \<^verbatim>\<open>interpretMessage\<close> writes exactly one frame, the
  response with the request's \<^verbatim>\<open>id\<close>, no \<^verbatim>\<open>result\<close>, and the error with code
  \<^verbatim>\<open>METHOD_NOT_FOUND\<close> and the message \<^verbatim>\<open>Method <name> not found.\<close>; it does nothing
  else, changes no variable and raises nothing. When the conversion throws (the method
  is an object with an own property \<^verbatim>\<open>toString\<close>, or an array that holds one), the
  message is never built: no response is written and the promise of
  \<^verbatim>\<open>interpretMessage\<close> is rejected; the variables are unchanged.
\<close>

theorem unknown_method:
  assumes "js_in ''method'' obj = Inr True"
    and "js_in ''id'' obj = Inr True"
    and "listener_get (requestListeners E) (js_get obj ''method'') = None"
  shows "interpretMessage E s obj =
     (case js_to_string (Number_toString E) (js_get obj ''method'') of
        Inr name \<Rightarrow>
          (s, [Write (frame (JSON_stringify E
                 (JObj [(''error'', JObj [(''code'', JNum METHOD_NOT_FOUND),
                                           (''message'', JStr (''Method '' @ name @ '' not found.''))]),
                        (''id'', js_get obj ''id''),
                        (''jsonrpc'', JStr ''2.0''),
                        (''result'', JUndefined)])))])
      | Inl e \<Rightarrow> (s, [Rejected e]))"
  using assms
  by (simp add: interpretMessage_def sendResponse_def response_object_def split: sum.splits)

theorem unknown_method_witness:
  "interpretMessage plain_env initial
      (JObj [(''jsonrpc'', JStr ''2.0''), (''id'', JNum 7), (''method'', JStr ''workspace/configuration'')]) =
     (initial, [Write (frame (JSON_stringify plain_env
            (JObj [(''error'', JObj [(''code'', JNum (- 32601)),
                                      (''message'', JStr ''Method workspace/configuration not found.'')]),
                   (''id'', JNum 7),
                   (''jsonrpc'', JStr ''2.0''),
                   (''result'', JUndefined)])))])
   \<and> interpretMessage plain_env initial
      (JObj [(''jsonrpc'', JStr ''2.0''), (''id'', JNum 7), (''method'', JArr [JStr ''a'', JNull, JObj []])]) =
     (initial, [Write (frame (JSON_stringify plain_env
            (JObj [(''error'', JObj [(''code'', JNum (- 32601)),
                                      (''message'', JStr ''Method a,,[object Object] not found.'')]),
                   (''id'', JNum 7),
                   (''jsonrpc'', JStr ''2.0''),
                   (''result'', JUndefined)])))])
   \<and> interpretMessage plain_env initial
      (JObj [(''id'', JNum 7), (''method'', JArr [JStr ''a'', JObj [(''toString'', JNull)]])]) =
     (initial, [Rejected TypeError])"
  using unknown_method [of "JObj [(''jsonrpc'', JStr ''2.0''), (''id'', JNum 7), (''method'', JStr ''workspace/configuration'')]" plain_env initial]
    unknown_method [of "JObj [(''jsonrpc'', JStr ''2.0''), (''id'', JNum 7), (''method'', JArr [JStr ''a'', JNull, JObj []])]" plain_env initial]
    unknown_method [of "JObj [(''id'', JNum 7), (''method'', JArr [JStr ''a'', JObj [(''toString'', JNull)]])]" plain_env initial]
  by (simp add: plain_env_def listener_get_def METHOD_NOT_FOUND_def)

text \<open>
  The request \<^verbatim>\<open>{"id":1,"method":{"toString":1}}\<close> has a method and an id, and no
  listener can be registered for its method; it gets no response.
\<close>

theorem unknown_method_counterexample:
  "interpretMessage plain_env initial
      (JObj [(''id'', JNum 1), (''method'', JObj [(''toString'', JNum 1)])])
     = (initial, [Rejected TypeError])"
  by (simp add: interpretMessage_def plain_env_def listener_get_def)

subsection \<open>Listeners that throw\<close>

text \<open>
  C7, as the code has it. Nothing catches what a listener throws. When a request
  listener throws, \<^verbatim>\<open>interpretMessage\<close> ends at the call: its promise is rejected and
  no response is written. When a notification listener throws, the promise is rejected
  and nothing is logged. In both cases, as for every payload that has a \<^verbatim>\<open>method\<close>,
  the module variables (decoder state and \<^verbatim>\<open>pendingRequests\<close>) are after the call what
  they were before it, which is also what they are when the listener returns; and
  the variables at the end of a call of \<^verbatim>\<open>onMessageReceived\<close> do not depend on the
  request and notification listeners at all, so they are the same with listeners that
  throw and with listeners that return.
\<close>

theorem listener_throws:
  assumes "js_in ''method'' obj = Inr True"
    and "js_get obj ''method'' = JStr m"
  shows "fst (interpretMessage E s obj) = s
    \<and> (js_in ''id'' obj = Inr True \<and> requestListeners E m = Some fn
          \<and> fn (js_get obj ''params'') = Inl e
        \<longrightarrow> snd (interpretMessage E s obj)
              = [RequestListenerCalled m (js_get obj ''params''), Rejected e])
    \<and> (js_in ''id'' obj = Inr False \<and> notificationListeners E m = Some fn'
          \<and> fn' (js_get obj ''params'') = Inl e'
        \<longrightarrow> snd (interpretMessage E s obj)
              = [NotificationListenerCalled m (js_get obj ''params''), Rejected e'])
    \<and> final (onMessageReceived (E\<lparr>requestListeners := rl, notificationListeners := nl\<rparr>) s0 data)
        = final (onMessageReceived E s0 data)"
  using assms
  by (simp add: interpretMessage_def listener_get_def onMessageReceived_def final_listeners_aux(1)
      split: sum.splits bool.splits option.splits)


theorem listener_throws_witness:
  "interpretMessage failing_env initial (JObj [(''id'', JNum 1), (''method'', JStr ''ask'')])
     = (initial, [RequestListenerCalled ''ask'' JUndefined, Rejected (Thrown (JStr ''failed''))])
   \<and> interpretMessage failing_env initial (JObj [(''method'', JStr ''note'')])
     = (initial, [NotificationListenerCalled ''note'' JUndefined, Rejected (Thrown (JStr ''failed''))])"
  using listener_throws [of "JObj [(''id'', JNum 1), (''method'', JStr ''ask'')]" "''ask''"
      failing_env initial "\<lambda>params. Inl (Thrown (JStr ''failed''))" "Thrown (JStr ''failed'')"]
    listener_throws [of "JObj [(''method'', JStr ''note'')]" "''note''"
      failing_env initial _ _ "\<lambda>params. Inl (Thrown (JStr ''failed''))" "Thrown (JStr ''failed'')"]
  by (simp add: failing_env_def plain_env_def prod_eq_iff)

theorem listener_throws_counterexample:
  "snd (interpretMessage failing_env initial (JObj [(''id'', JNum 1), (''method'', JStr ''ask'')]))
     = [RequestListenerCalled ''ask'' JUndefined, Rejected (Thrown (JStr ''failed''))]"
  by (simp add: interpretMessage_def failing_env_def plain_env_def listener_get_def)

subsection \<open>Responses\<close>

text \<open>
  C8, as the code has it. A response whose id is in \<^verbatim>\<open>pendingRequests\<close> while
  \<^verbatim>\<open>responseListeners\<close> has no entry for the method of the stored request: nothing
  is called, nothing is reported and \<^verbatim>\<open>pendingRequests\<close> keeps the entry.
\<close>

theorem response_without_listener:
  assumes "js_in ''method'' obj = Inr False"
    and "map_get (pendingRequests s) (js_get obj ''id'') = Some request"
    and "responseListeners E (msg_method request) = None"
  shows "interpretMessage E s obj = (s, [])"
proof -
  have "js_get obj ''id'' \<noteq> JNull"
    using assms(2) by (auto simp: map_get_def)
  then show ?thesis
    using assms by (simp add: interpretMessage_def)
qed

theorem response_without_listener_witness:
  "interpretMessage plain_env (fst (sendRequest plain_env ''abc'' ''textDocument/hover'' JUndefined initial))
      (JObj [(''id'', JStr ''abc''), (''jsonrpc'', JStr ''2.0''), (''result'', JNull)])
     = (fst (sendRequest plain_env ''abc'' ''textDocument/hover'' JUndefined initial), [])"
  using response_without_listener
    [of "JObj [(''id'', JStr ''abc''), (''jsonrpc'', JStr ''2.0''), (''result'', JNull)]"
      "fst (sendRequest plain_env ''abc'' ''textDocument/hover'' JUndefined initial)"
      "\<lparr>msg_id = IdStr ''abc'', msg_jsonrpc = ''2.0'', msg_method = ''textDocument/hover'',
        msg_params = JUndefined\<rparr>" plain_env]
  by (simp add: sendRequest_def map_get_def plain_env_def Let_def)

theorem response_without_listener_counterexample:
  "pendingRequests
     (fst (interpretMessage plain_env
             (fst (sendRequest plain_env ''abc'' ''textDocument/hover'' JUndefined initial))
             (JObj [(''id'', JStr ''abc''), (''jsonrpc'', JStr ''2.0''), (''result'', JNull)])))
     (IdStr ''abc'')
   = Some \<lparr>msg_id = IdStr ''abc'', msg_jsonrpc = ''2.0'', msg_method = ''textDocument/hover'',
            msg_params = JUndefined\<rparr>"
  by (simp add: interpretMessage_def sendRequest_def map_get_def plain_env_def Let_def)

text \<open>
  C9. A response without any \<^verbatim>\<open>id\<close> field passes the test
  \<^verbatim>\<open>response.id !== null\<close> (its \<^verbatim>\<open>id\<close> is \<^verbatim>\<open>undefined\<close>), is looked up in
  \<^verbatim>\<open>pendingRequests\<close> and gets the report of an unknown id,
  \<^verbatim>\<open>Pending request not found.\<close>; only an \<^verbatim>\<open>id\<close> that is \<^verbatim>\<open>null\<close> gets the report
  \<^verbatim>\<open>Missing id field form response.\<close>
\<close>

theorem missing_id_reported_as_unknown_id:
  "interpretMessage E s (JObj [(''jsonrpc'', JStr ''2.0''), (''result'', JNull)])
     = (s, [ShowErrorMessage ''Pending request not found.''])
   \<and> interpretMessage E initial (JObj [(''id'', JStr ''abc''), (''jsonrpc'', JStr ''2.0''), (''result'', JNull)])
     = (initial, [ShowErrorMessage ''Pending request not found.''])
   \<and> interpretMessage E s (JObj [(''id'', JNull), (''jsonrpc'', JStr ''2.0''), (''result'', JNull)])
     = (s, [ConsoleLog (JObj [(''id'', JNull), (''jsonrpc'', JStr ''2.0''), (''result'', JNull)]),
            ShowErrorMessage ''Missing id field form response.''])"
  by (simp add: interpretMessage_def map_get_def initial_def)

text \<open>
  C2. \<^verbatim>\<open>sendRequest\<close> stores the request under the id \<^verbatim>\<open>X\<close> it was given and
  writes its frame. In any
  later state in which this entry is still there, a response with id \<^verbatim>\<open>X\<close> makes
  \<^verbatim>\<open>interpretMessage\<close> call exactly the response listener registered for the
  request's method, with the stored request and the response; when the listener
  returns \<^verbatim>\<open>true\<close> the entry \<^verbatim>\<open>X\<close> is deleted, when it returns \<^verbatim>\<open>false\<close> nothing
  changes.
\<close>

theorem correlation:
  assumes "sendRequest E X method params s0 = (s1, out)"
    and "pendingRequests s (IdStr X) = pendingRequests s1 (IdStr X)"
    and "js_in ''method'' obj = Inr False"
    and "js_get obj ''id'' = JStr X"
    and "responseListeners E method = Some fn"
    and "fn \<lparr>msg_id = IdStr X, msg_jsonrpc = ''2.0'', msg_method = method, msg_params = params\<rparr> obj
           = Inr shouldRemove"
  shows "pendingRequests s1 (IdStr X)
           = Some \<lparr>msg_id = IdStr X, msg_jsonrpc = ''2.0'', msg_method = method, msg_params = params\<rparr>
    \<and> out = [Write (frame (JSON_stringify E (request_object
                \<lparr>msg_id = IdStr X, msg_jsonrpc = ''2.0'', msg_method = method,
                  msg_params = params\<rparr>)))]
    \<and> interpretMessage E s obj
        = ((if shouldRemove then s\<lparr>pendingRequests := (pendingRequests s)(IdStr X := None)\<rparr> else s),
           [ResponseListenerCalled method
              \<lparr>msg_id = IdStr X, msg_jsonrpc = ''2.0'', msg_method = method, msg_params = params\<rparr> obj])"
proof -
  let ?req = "\<lparr>msg_id = IdStr X, msg_jsonrpc = ''2.0'', msg_method = method, msg_params = params\<rparr>"
  have pend: "pendingRequests s1 (IdStr X) = Some ?req"
    using assms(1) by (auto simp: sendRequest_def Let_def)
  have out: "out = [Write (frame (JSON_stringify E (request_object ?req)))]"
    using assms(1) by (auto simp: sendRequest_def Let_def)
  have "map_get (pendingRequests s) (js_get obj ''id'') = Some ?req"
    using pend assms(2,4) by (simp add: map_get_def)
  then show ?thesis
    using pend out assms(3-6) by (simp add: interpretMessage_def map_delete_def)
qed

theorem correlation_witness:
  "pendingRequests (fst (sendRequest activated_env ''abc'' ''initialize'' JUndefined initial)) (IdStr ''abc'')
     = Some \<lparr>msg_id = IdStr ''abc'', msg_jsonrpc = ''2.0'', msg_method = ''initialize'',
              msg_params = JUndefined\<rparr>
   \<and> pendingRequests
       (fst (interpretMessage activated_env
               (fst (sendRequest activated_env ''abc'' ''initialize'' JUndefined initial))
               (JObj [(''id'', JStr ''abc''), (''result'', JObj [])])))
       (IdStr ''abc'') = None
   \<and> snd (interpretMessage activated_env
               (fst (sendRequest activated_env ''abc'' ''initialize'' JUndefined initial))
               (JObj [(''id'', JStr ''abc''), (''result'', JObj [])]))
     = [ResponseListenerCalled ''initialize''
          \<lparr>msg_id = IdStr ''abc'', msg_jsonrpc = ''2.0'', msg_method = ''initialize'',
            msg_params = JUndefined\<rparr>
          (JObj [(''id'', JStr ''abc''), (''result'', JObj [])])]"
  using correlation [of activated_env "''abc''" "''initialize''" JUndefined initial
      "fst (sendRequest activated_env ''abc'' ''initialize'' JUndefined initial)"
      "snd (sendRequest activated_env ''abc'' ''initialize'' JUndefined initial)"
      "fst (sendRequest activated_env ''abc'' ''initialize'' JUndefined initial)"
      "JObj [(''id'', JStr ''abc''), (''result'', JObj [])]"
      "\<lambda>request response. Inr True" True]
  by (simp add: activated_env_def plain_env_def)

subsection \<open>Every pending request sits under its own id\<close>

text \<open>
  C10. In every state that calls of \<^verbatim>\<open>sendRequest\<close>, \<^verbatim>\<open>interpretMessage\<close> and
  \<^verbatim>\<open>onMessageReceived\<close>, in any order and with any arguments, lead to from the initial
  state with the empty \<^verbatim>\<open>pendingRequests\<close>, every entry of \<^verbatim>\<open>pendingRequests\<close> maps
  its key to a request whose \<^verbatim>\<open>id\<close> is that key.
\<close>

theorem ledger_consistent:
  assumes "s \<in> reachable E"
  shows "ledger_ok s"
  using assms
proof (induction rule: reachable.induct)
  case reach_initial
  show ?case by (simp add: ledger_ok_def initial_def)
next
  case (reach_sendRequest s uuid name ps)
  then show ?case by (simp add: ledger_ok_sendRequest)
next
  case (reach_interpretMessage s obj)
  then show ?case by (simp add: ledger_ok_interpretMessage)
next
  case (reach_onMessageReceived s data)
  then show ?case by (simp add: onMessageReceived_def ledger_ok_mainwhile)
qed

theorem ledger_consistent_witness:
  "ledger_ok (fst (sendRequest plain_env ''abc'' ''initialize'' JUndefined initial))
   \<and> pendingRequests (fst (sendRequest plain_env ''abc'' ''initialize'' JUndefined initial)) (IdStr ''abc'')
       = Some \<lparr>msg_id = IdStr ''abc'', msg_jsonrpc = ''2.0'', msg_method = ''initialize'',
                msg_params = JUndefined\<rparr>"
  using ledger_consistent [OF reachable.reach_sendRequest [OF reachable.reach_initial],
      of plain_env "''abc''" "''initialize''" JUndefined]
  by (simp add: sendRequest_def Let_def)

end
